theory Spec2Isabelle
  imports Main "HOL-Library.Word"
begin

section \<open>Go values\<close>

text \<open>
  Go's \<^verbatim>\<open>int32\<close> and \<^verbatim>\<open>int64\<close> are two's-complement machine integers: they are
  words, read through \<open>sint\<close> wherever the source compares them (\<^verbatim>\<open>id < 1\<close>,
  \<^verbatim>\<open>movie.Year >= 1888\<close>). A \<^verbatim>\<open>time.Time\<close> is a number of milliseconds on the clock
  of the world the program runs in. A Go slice is either \<^verbatim>\<open>nil\<close> (\<open>None\<close>) or a
  sequence (\<open>Some xs\<close>); \<^verbatim>\<open>len\<close> of a \<^verbatim>\<open>nil\<close> slice is 0.
\<close>

type_synonym int32 = "32 word"
type_synonym int64 = "64 word"
type_synonym Time = nat

definition len :: "'a list option \<Rightarrow> nat" where
  "len s = (case s of None \<Rightarrow> 0 | Some xs \<Rightarrow> length xs)"

text \<open>
  \<^verbatim>\<open>type Movie struct\<close> of \<^verbatim>\<open>internal/data/movies.go\<close>. The type \<^verbatim>\<open>Runtime\<close> is declared
  outside the sources at hand; \<^verbatim>\<open>ValidateMovie\<close> compares it with the constant 0, the
  column it is stored in is an integer column, and it is taken to be an \<^verbatim>\<open>int32\<close>.
\<close>

record Movie =
  ID :: int64
  CreatedAt :: Time
  Title :: string
  Year :: int32
  Runtime :: int32
  Genres :: "string list option"
  Version :: int32

text \<open>
  Go's \<^verbatim>\<open>error\<close> values that the data layer sees: its own two sentinels
  (\<^verbatim>\<open>ErrRecordNotFound\<close> of \<^verbatim>\<open>models.go\<close>; \<^verbatim>\<open>ErrEditConflict\<close>, which \<^verbatim>\<open>Update\<close>
  returns and which is declared outside the sources at hand), \<^verbatim>\<open>sql.ErrNoRows\<close>,
  the expiry of a context's deadline, and any other failure of the driver or of the
  database, with its message.
\<close>

datatype error =
    ErrRecordNotFound
  | ErrEditConflict
  | ErrNoRows
  | DeadlineExceeded
  | DriverError string

text \<open>The spec's \<^emph>\<open>generic storage error\<close>: a failure that is no outcome of the domain.\<close>

fun StorageError :: "error \<Rightarrow> bool" where
  "StorageError DeadlineExceeded = True"
| "StorageError (DriverError msg) = True"
| "StorageError e = False"

section \<open>The validator\<close>

text \<open>
  Modelled from the spec: the package \<^verbatim>\<open>internal/validator\<close> (the type \<^verbatim>\<open>Validator\<close>, its
  method \<^verbatim>\<open>Check\<close> and the function \<^verbatim>\<open>Unique\<close>) is not among the sources. The spec (4.1)
  has the validator \<^emph>\<open>collect all violations as field-name, human-readable-message
  pairs\<close> and return \<^emph>\<open>the violation set (empty means valid)\<close>: a validator is the
  sequence of the pairs collected so far, and \<^verbatim>\<open>Check(ok, key, message)\<close> adds the pair
  when \<^verbatim>\<open>ok\<close> is false.
\<close>

type_synonym Validator = "(string \<times> string) list"

definition Check :: "Validator \<Rightarrow> bool \<Rightarrow> string \<Rightarrow> string \<Rightarrow> Validator" where
  "Check v ok key message = (if ok then v else v @ [(key, message)])"

text \<open>
  Modelled from the spec: \<^verbatim>\<open>validator.Unique\<close> is not among the sources. The spec (3) asks
  of the genres \<^emph>\<open>no duplicates (set-uniqueness over the sequence)\<close>; a \<^verbatim>\<open>nil\<close> slice
  has no entries.
\<close>

definition Unique :: "string list option \<Rightarrow> bool" where
  "Unique values = (case values of None \<Rightarrow> True | Some xs \<Rightarrow> distinct xs)"

text \<open>
  \<^verbatim>\<open>ValidateMovie\<close>, check by check. \<open>now_year\<close> is \<^verbatim>\<open>time.Now().Year()\<close>, a Go \<^verbatim>\<open>int\<close>;
  \<^verbatim>\<open>int32(...)\<close> truncates it to 32 bits.
\<close>

definition ValidateMovie :: "int \<Rightarrow> Validator \<Rightarrow> Movie \<Rightarrow> Validator" where
  "ValidateMovie now_year v0 movie =
    (let v1 = Check v0 (Title movie \<noteq> []) ''title'' ''must be provided'';
         v2 = Check v1 (length (Title movie) \<le> 500) ''title''
                ''must not be more than 500 bytes long'';
         v3 = Check v2 (Year movie \<noteq> 0) ''year'' ''must be provided'';
         v4 = Check v3 (1888 \<le> sint (Year movie)) ''year'' ''must be greater than 1888'';
         v5 = Check v4 (sint (Year movie) \<le> sint (word_of_int now_year :: int32)) ''year''
                ''must not be in the future'';
         v6 = Check v5 (Runtime movie \<noteq> 0) ''runtime'' ''must be provided'';
         v7 = Check v6 (0 < sint (Runtime movie)) ''runtime'' ''must be a positive integer'';
         v8 = Check v7 (Genres movie \<noteq> None) ''genres'' ''must be provided'';
         v9 = Check v8 (1 \<le> len (Genres movie)) ''genres'' ''must contain at least 1 genre'';
         v10 = Check v9 (len (Genres movie) \<le> 5) ''genres''
                ''must not contain more than 5 genres'';
         v11 = Check v10 (Unique (Genres movie)) ''genres''
                ''must not contain duplicate values''
     in v11)"

text \<open>
  The field invariants of the spec's data model (3), in the spec's words: title of 1 to
  500 bytes; year in [1888, current calendar year]; runtime > 0; genres of 1 to 5
  entries without duplicates.
\<close>

definition title_invariant :: "Movie \<Rightarrow> bool" where
  "title_invariant movie = (1 \<le> length (Title movie) \<and> length (Title movie) \<le> 500)"

definition year_invariant :: "int \<Rightarrow> Movie \<Rightarrow> bool" where
  "year_invariant now_year movie =
     (1888 \<le> sint (Year movie) \<and> sint (Year movie) \<le> now_year)"

definition runtime_invariant :: "Movie \<Rightarrow> bool" where
  "runtime_invariant movie = (0 < sint (Runtime movie))"

definition genres_invariant :: "Movie \<Rightarrow> bool" where
  "genres_invariant movie =
     (case Genres movie of
        None \<Rightarrow> False
      | Some gs \<Rightarrow> 1 \<le> length gs \<and> length gs \<le> 5 \<and> distinct gs)"

definition record_invariants :: "int \<Rightarrow> Movie \<Rightarrow> bool" where
  "record_invariants now_year movie =
     (title_invariant movie \<and> year_invariant now_year movie \<and>
      runtime_invariant movie \<and> genres_invariant movie)"

definition keys :: "Validator \<Rightarrow> string set" where
  "keys v = fst ` set v"

section \<open>The storage backend\<close>

text \<open>
  The data layer talks to a relational database through \<^verbatim>\<open>database/sql\<close>. The database
  is the environment of the program, and the model says what the four statements of
  \<^verbatim>\<open>movies.go\<close> do to one table.

  Modelled from the spec: the schema of the table \<^verbatim>\<open>movies\<close> is not among the sources.
  The spec (6) gives one row per record with the columns \<^verbatim>\<open>id\<close> (64-bit integer,
  primary key, generated), \<^verbatim>\<open>created_at\<close> (timestamp, generated at insert),
  \<^verbatim>\<open>title\<close>, \<^verbatim>\<open>year\<close>, \<^verbatim>\<open>runtime\<close>, \<^verbatim>\<open>genres\<close> (all not null) and \<^verbatim>\<open>version\<close>
  (integer, not null, default 1).
\<close>

record Row =
  row_id :: int64
  created_at :: Time
  title :: string
  year :: int32
  runtime :: int32
  genres :: "string list"
  version :: int32

text \<open>
  The statements of \<^verbatim>\<open>movies.go\<close> with their placeholder arguments, in the order of the
  \<^verbatim>\<open>args\<close> slices: \<^verbatim>\<open>INSERT INTO movies (title, year, runtime, genres) VALUES ($1, $2, $3,
  $4) RETURNING id, created_at, version\<close>; \<^verbatim>\<open>SELECT pg_sleep(10), id, ... FROM movies WHERE
  id = $1\<close>; \<^verbatim>\<open>UPDATE movies SET title = $1, year = $2, runtime = $3, genres = $4, version =
  version + 1 WHERE id = $5 AND version = $6 RETURNING version\<close>; \<^verbatim>\<open>DELETE FROM movies
  WHERE id = $1\<close>. \<^verbatim>\<open>pq.Array\<close> sends a \<^verbatim>\<open>nil\<close> slice as NULL.
\<close>

datatype statement =
    INSERT string int32 int32 "string list option"
  | SELECT int64
  | UPDATE string int32 int32 "string list option" int64 int32
  | DELETE int64

text \<open>
  The world behind the connection pool \<^verbatim>\<open>m.DB\<close>: the rows of the table, the last value
  handed out by the sequence that generates ids (its first value is 1), the clock in
  milliseconds, the time the backend takes to answer a statement, the failure it suffers
  (connectivity and the like: then every statement fails with that message and has no
  effect), and the statements it has been sent, oldest first.
\<close>

record DB =
  movies :: "Row list"
  last_id :: nat
  clock :: Time
  latency :: nat
  fault :: "string option"
  sent :: "statement list"

text \<open>What a statement gives back: the rows it returns and the number of rows it affected.\<close>

record Result =
  returned :: "Row list"
  affected :: nat

definition where_id :: "int64 \<Rightarrow> Row \<Rightarrow> bool" where
  "where_id i r = (row_id r = i)"

definition where_id_and_version :: "int64 \<Rightarrow> int32 \<Rightarrow> Row \<Rightarrow> bool" where
  "where_id_and_version i v r = (row_id r = i \<and> version r = v)"

text \<open>
  \<open>run\<close> is the effect of a statement on the table. INSERT draws the next id from the
  sequence (a 64-bit sequence ends at \<open>2^63 - 1\<close>), stamps the row with the clock and
  gives it version 1; NULL genres violate the not-null constraint. UPDATE rewrites the
  rows that satisfy its WHERE clause; there too NULL genres violate the constraint, and
  \<^verbatim>\<open>version + 1\<close> beyond the largest 32-bit integer is an error of the database, not a
  wrap-around. A statement that fails changes nothing.
\<close>

definition set_row :: "string \<Rightarrow> int32 \<Rightarrow> int32 \<Rightarrow> string list \<Rightarrow> Row \<Rightarrow> Row" where
  "set_row t y rt gs r =
     r\<lparr>title := t, year := y, runtime := rt, genres := gs, version := version r + 1\<rparr>"

fun run :: "statement \<Rightarrow> DB \<Rightarrow> error + (Result \<times> DB)" where
  "run (INSERT t y rt g) db =
     (case g of
        None \<Rightarrow> Inl (DriverError ''null value in column genres violates not-null constraint'')
      | Some gs \<Rightarrow>
          if 2 ^ 63 - 1 \<le> last_id db
          then Inl (DriverError ''nextval: reached maximum value of sequence'')
          else
            let r = \<lparr>row_id = word_of_nat (last_id db + 1), created_at = clock db, title = t,
                      year = y, runtime = rt, genres = gs, version = 1\<rparr>
            in Inr (\<lparr>returned = [r], affected = 1\<rparr>,
                    db\<lparr>movies := movies db @ [r], last_id := last_id db + 1\<rparr>))"
| "run (SELECT i) db =
     (let rs = filter (where_id i) (movies db)
      in Inr (\<lparr>returned = rs, affected = length rs\<rparr>, db))"
| "run (UPDATE t y rt g i v) db =
     (let rs = filter (where_id_and_version i v) (movies db)
      in if rs = [] then Inr (\<lparr>returned = [], affected = 0\<rparr>, db)
         else case g of
           None \<Rightarrow> Inl (DriverError ''null value in column genres violates not-null constraint'')
         | Some gs \<Rightarrow>
             if sint v = 2 ^ 31 - 1 then Inl (DriverError ''integer out of range'')
             else
               Inr (\<lparr>returned = map (set_row t y rt gs) rs, affected = length rs\<rparr>,
                    db\<lparr>movies := map (\<lambda>r. if where_id_and_version i v r
                                            then set_row t y rt gs r else r) (movies db)\<rparr>))"
| "run (DELETE i) db =
     (let rs = filter (where_id i) (movies db)
      in Inr (\<lparr>returned = [], affected = length rs\<rparr>,
              db\<lparr>movies := filter (\<lambda>r. \<not> where_id i r) (movies db)\<rparr>))"

text \<open>
  The time a statement keeps a healthy backend busy: its latency, and for the SELECT of
  \<^verbatim>\<open>Get\<close> the \<^verbatim>\<open>pg_sleep(10)\<close> of its select list, evaluated once for every row that the
  WHERE clause lets through (10 seconds each).
\<close>

fun pg_sleep :: "statement \<Rightarrow> DB \<Rightarrow> nat" where
  "pg_sleep (SELECT i) db = 10000 * length (filter (where_id i) (movies db))"
| "pg_sleep s db = 0"

definition busy :: "statement \<Rightarrow> DB \<Rightarrow> nat" where
  "busy s db = latency db + (if fault db = None then pg_sleep s db else 0)"

text \<open>
  One round trip to the backend. The statement is sent (and recorded). With a deadline
  \<open>Some t\<close> that expires before the backend has answered, the call is abandoned after \<open>t\<close>
  milliseconds with the deadline's error, and the statement has no effect. Otherwise the
  clock advances by the time the backend was busy, and the answer is the backend's
  failure if it suffers one, else the result of the statement.
\<close>

definition answer :: "DB \<Rightarrow> nat \<Rightarrow> statement \<Rightarrow> (error + Result) \<times> DB" where
  "answer db1 d s =
     (case fault db1 of
        Some msg \<Rightarrow> (Inl (DriverError msg), db1\<lparr>clock := clock db1 + d\<rparr>)
      | None \<Rightarrow>
          (case run s db1 of
             Inl e \<Rightarrow> (Inl e, db1\<lparr>clock := clock db1 + d\<rparr>)
           | Inr (res, db2) \<Rightarrow> (Inr res, db2\<lparr>clock := clock db1 + d\<rparr>)))"

definition round_trip :: "nat option \<Rightarrow> DB \<Rightarrow> statement \<Rightarrow> (error + Result) \<times> DB" where
  "round_trip deadline db s =
     (let db1 = db\<lparr>sent := sent db @ [s]\<rparr>;
          d = busy s db
      in case deadline of
           None \<Rightarrow> answer db1 d s
         | Some t \<Rightarrow>
             if t \<le> d then (Inl DeadlineExceeded, db1\<lparr>clock := clock db1 + t\<rparr>)
             else answer db1 d s)"

text \<open>
  \<^verbatim>\<open>database/sql\<close>: \<^verbatim>\<open>QueryRow(...).Scan(...)\<close> yields the first returned row, or
  \<^verbatim>\<open>sql.ErrNoRows\<close> when there is none, or the error of the query; the destinations of
  \<^verbatim>\<open>Scan\<close> are written only when there is a row (the columns have the types of the
  destinations, so no conversion fails halfway). \<^verbatim>\<open>QueryRowContext\<close> does the same under
  the context's deadline. \<^verbatim>\<open>Exec\<close> followed by \<^verbatim>\<open>RowsAffected\<close> yields the count.
\<close>

definition first_row :: "(error + Result) \<times> DB \<Rightarrow> (error + Row) \<times> DB" where
  "first_row a =
     (case a of
        (Inl e, db') \<Rightarrow> (Inl e, db')
      | (Inr res, db') \<Rightarrow>
          (case returned res of [] \<Rightarrow> (Inl ErrNoRows, db') | r # rs \<Rightarrow> (Inr r, db')))"

definition QueryRow :: "DB \<Rightarrow> statement \<Rightarrow> (error + Row) \<times> DB" where
  "QueryRow db s = first_row (round_trip None db s)"

definition QueryRowContext :: "nat \<Rightarrow> DB \<Rightarrow> statement \<Rightarrow> (error + Row) \<times> DB" where
  "QueryRowContext timeout db s = first_row (round_trip (Some timeout) db s)"

definition Exec :: "DB \<Rightarrow> statement \<Rightarrow> (error + nat) \<times> DB" where
  "Exec db s =
     (case round_trip None db s of
        (Inl e, db') \<Rightarrow> (Inl e, db')
      | (Inr res, db') \<Rightarrow> (Inr (affected res), db'))"

section \<open>The movie model\<close>

text \<open>
  The four methods of \<^verbatim>\<open>MovieModel\<close>. Each takes the world behind \<^verbatim>\<open>m.DB\<close> and returns it
  as the call leaves it. \<^verbatim>\<open>Insert\<close> and \<^verbatim>\<open>Update\<close> receive a pointer to the caller's
  record and return that record as the call leaves it; their error is \<open>None\<close> for Go's
  \<^verbatim>\<open>nil\<close>. \<^verbatim>\<open>Get\<close> returns either an error or the record it read.
\<close>

definition Insert :: "DB \<Rightarrow> Movie \<Rightarrow> error option \<times> Movie \<times> DB" where
  "Insert db movie =
     (case QueryRow db (INSERT (Title movie) (Year movie) (Runtime movie) (Genres movie)) of
        (Inl err, db') \<Rightarrow> (Some err, movie, db')
      | (Inr r, db') \<Rightarrow>
          (None, movie\<lparr>ID := row_id r, CreatedAt := created_at r, Version := version r\<rparr>, db'))"

definition Get :: "DB \<Rightarrow> int64 \<Rightarrow> (error + Movie) \<times> DB" where
  "Get db i =
     (if sint i < 1 then (Inl ErrRecordNotFound, db)
      else
        case QueryRowContext 3000 db (SELECT i) of
          (Inl err, db') \<Rightarrow>
            (if err = ErrNoRows then (Inl ErrRecordNotFound, db') else (Inl err, db'))
        | (Inr r, db') \<Rightarrow>
            (Inr \<lparr>ID = row_id r, CreatedAt = created_at r, Title = title r, Year = year r,
                  Runtime = runtime r, Genres = Some (genres r), Version = version r\<rparr>, db'))"

definition Update :: "DB \<Rightarrow> Movie \<Rightarrow> error option \<times> Movie \<times> DB" where
  "Update db movie =
     (case QueryRow db (UPDATE (Title movie) (Year movie) (Runtime movie) (Genres movie)
                          (ID movie) (Version movie)) of
        (Inl err, db') \<Rightarrow>
          (if err = ErrNoRows then (Some ErrEditConflict, movie, db')
           else (Some err, movie, db'))
      | (Inr r, db') \<Rightarrow> (None, movie\<lparr>Version := version r\<rparr>, db'))"

definition Delete :: "DB \<Rightarrow> int64 \<Rightarrow> error option \<times> DB" where
  "Delete db i =
     (if sint i < 1 then (Some ErrRecordNotFound, db)
      else
        case Exec db (DELETE i) of
          (Inl err, db') \<Rightarrow> (Some err, db')
        | (Inr rowsAffected, db') \<Rightarrow>
            (if rowsAffected = 0 then (Some ErrRecordNotFound, db') else (None, db')))"

section \<open>The table's key and example data\<close>

text \<open>
  The row of a given id, as a reader of the table finds it, and the condition under
  which the ids of the table are a primary key generated by the sequence: no id occurs
  twice, and every id was handed out already.
\<close>

definition stored :: "DB \<Rightarrow> int64 \<Rightarrow> Row option" where
  "stored db i = find (where_id i) (movies db)"

definition generated_ids :: "DB \<Rightarrow> bool" where
  "generated_ids db =
     (distinct (map row_id (movies db)) \<and> last_id db \<le> 2 ^ 63 - 1 \<and>
      list_all (\<lambda>r. 1 \<le> sint (row_id r) \<and> sint (row_id r) \<le> int (last_id db)) (movies db))"

definition moana :: Movie where
  "moana = \<lparr>ID = 0, CreatedAt = 0, Title = ''Moana'', Year = 2016, Runtime = 107,
             Genres = Some [''animation'', ''adventure''], Version = 0\<rparr>"

definition moana_row :: Row where
  "moana_row = \<lparr>row_id = 1, created_at = 1000, title = ''Moana'', year = 2016, runtime = 107,
                 genres = [''animation'', ''adventure''], version = 1\<rparr>"

definition empty_db :: DB where
  "empty_db = \<lparr>movies = [], last_id = 0, clock = 1000, latency = 20, fault = None, sent = []\<rparr>"

definition moana_db :: DB where
  "moana_db = \<lparr>movies = [moana_row], last_id = 1, clock = 2000, latency = 20, fault = None,
                sent = []\<rparr>"

section \<open>What the validator collects\<close>

lemma Check_eq: "Check v ok k m = v @ (if ok then [] else [(k, m)])"
  by (simp add: Check_def)

lemma ValidateMovie_eq:
  "ValidateMovie y v movie = v @
     (if Title movie \<noteq> [] then [] else [(''title'', ''must be provided'')]) @
     (if length (Title movie) \<le> 500 then []
      else [(''title'', ''must not be more than 500 bytes long'')]) @
     (if Year movie \<noteq> 0 then [] else [(''year'', ''must be provided'')]) @
     (if 1888 \<le> sint (Year movie) then [] else [(''year'', ''must be greater than 1888'')]) @
     (if sint (Year movie) \<le> sint (word_of_int y :: int32) then []
      else [(''year'', ''must not be in the future'')]) @
     (if Runtime movie \<noteq> 0 then [] else [(''runtime'', ''must be provided'')]) @
     (if 0 < sint (Runtime movie) then [] else [(''runtime'', ''must be a positive integer'')]) @
     (if Genres movie \<noteq> None then [] else [(''genres'', ''must be provided'')]) @
     (if 1 \<le> len (Genres movie) then [] else [(''genres'', ''must contain at least 1 genre'')]) @
     (if len (Genres movie) \<le> 5 then []
      else [(''genres'', ''must not contain more than 5 genres'')]) @
     (if Unique (Genres movie) then []
      else [(''genres'', ''must not contain duplicate values'')])"
  unfolding ValidateMovie_def Let_def Check_eq append_assoc ..

lemma violation_Nil: "((if ok then [] else [p]) = []) = ok"
  by simp

lemma keys_append: "keys (v @ w) = keys v \<union> keys w"
  by (simp add: keys_def image_Un)

lemma keys_violation: "(k \<in> keys (if ok then [] else [(k', m)])) = (\<not> ok \<and> k = k')"
  by (simp add: keys_def)

lemma keys_Nil: "keys [] = {}"
  by (simp add: keys_def)

lemma sint_now_year:
  "- (2 ^ 31) \<le> y \<Longrightarrow> y < 2 ^ 31 \<Longrightarrow> sint (word_of_int y :: int32) = y"
  by (simp add: sint_sbintrunc' signed_take_bit_int_eq_self)

lemma ValidateMovie_Nil_iff:
  "(ValidateMovie y [] movie = []) =
     (Title movie \<noteq> [] \<and> length (Title movie) \<le> 500 \<and> Year movie \<noteq> 0 \<and>
      1888 \<le> sint (Year movie) \<and> sint (Year movie) \<le> sint (word_of_int y :: int32) \<and>
      Runtime movie \<noteq> 0 \<and> 0 < sint (Runtime movie) \<and> Genres movie \<noteq> None \<and>
      1 \<le> len (Genres movie) \<and> len (Genres movie) \<le> 5 \<and> Unique (Genres movie))"
  unfolding ValidateMovie_eq append_Nil append_is_Nil_conv violation_Nil ..

lemma title_key:
  "(''title'' \<in> keys (ValidateMovie y [] movie)) = (\<not> title_invariant movie)"
  unfolding ValidateMovie_eq keys_append Un_iff keys_violation keys_Nil title_invariant_def
  by (cases "Title movie") auto

lemma year_key:
  assumes "- (2 ^ 31) \<le> y" "y < 2 ^ 31"
  shows "(''year'' \<in> keys (ValidateMovie y [] movie)) = (\<not> year_invariant y movie)"
  unfolding ValidateMovie_eq keys_append Un_iff keys_violation keys_Nil year_invariant_def
    sint_now_year [OF assms]
  by auto

lemma runtime_key:
  "(''runtime'' \<in> keys (ValidateMovie y [] movie)) = (\<not> runtime_invariant movie)"
  unfolding ValidateMovie_eq keys_append Un_iff keys_violation keys_Nil runtime_invariant_def
  by auto

lemma genres_key:
  "(''genres'' \<in> keys (ValidateMovie y [] movie)) = (\<not> genres_invariant movie)"
  unfolding ValidateMovie_eq keys_append Un_iff keys_violation keys_Nil genres_invariant_def
  by (cases "Genres movie") (auto simp: len_def Unique_def)

lemma keys_ValidateMovie:
  "k \<in> keys (ValidateMovie y [] movie) \<Longrightarrow> k \<in> {''title'', ''year'', ''runtime'', ''genres''}"
  unfolding ValidateMovie_eq keys_append Un_iff keys_violation keys_Nil
  by blast

lemma ValidateMovie_invariants:
  assumes "- (2 ^ 31) \<le> y" "y < 2 ^ 31"
  shows "(ValidateMovie y [] movie = []) = record_invariants y movie"
  unfolding ValidateMovie_Nil_iff record_invariants_def title_invariant_def year_invariant_def
    runtime_invariant_def genres_invariant_def sint_now_year [OF assms]
  by (cases "Genres movie"; cases "Title movie") (auto simp: len_def Unique_def)

lemma ValidateMovie_append: "ValidateMovie y v movie = v @ ValidateMovie y [] movie"
  unfolding ValidateMovie_eq append_Nil ..

section \<open>Machine integers and the table as a list\<close>

lemma sint_succ_version:
  fixes v :: int32
  assumes "sint v \<noteq> 2 ^ 31 - 1"
  shows "sint (v + 1) = sint v + 1"
proof -
  have "sint v < 2 ^ 31" using sint_lt [of v] by simp
  moreover have "- (2 ^ 31) \<le> sint v" using sint_ge [of v] by simp
  ultimately have "- (2 ^ 31) \<le> sint v + 1 \<and> sint v + 1 < 2 ^ 31"
    using assms by simp
  then have "signed_take_bit 31 (sint v + 1) = sint v + 1"
    by (simp add: signed_take_bit_int_eq_self)
  then show ?thesis by (simp add: sint_word_ariths)
qed

lemma sint_generated_id:
  assumes "n < 2 ^ 63"
  shows "sint (word_of_nat n :: int64) = int n"
proof -
  have "int n < 2 ^ 63" using assms by (metis of_nat_less_iff of_nat_numeral of_nat_power)
  then have "signed_take_bit 63 (int n) = int n"
    by (simp add: signed_take_bit_int_eq_self)
  then show ?thesis
    by (simp add: signed_of_nat)
qed

lemma find_primary_key:
  "distinct (map row_id rows) \<Longrightarrow> x \<in> set rows \<Longrightarrow> row_id x = i
     \<Longrightarrow> find (where_id i) rows = Some x"
  by (induction rows) (auto simp: where_id_def)

lemma find_map_same_id:
  "(\<And>r. row_id (f r) = row_id r)
     \<Longrightarrow> find (where_id i) (map f rows) = map_option f (find (where_id i) rows)"
  by (induction rows) (auto simp: where_id_def)

lemma find_None_where_id:
  "(find (where_id i) rows = None) = (filter (where_id i) rows = [])"
  by (induction rows) auto


subsection \<open>Round trips\<close>

lemma round_trip_fault:
  "fault db = Some msg \<Longrightarrow>
   round_trip None db s =
     (Inl (DriverError msg), db\<lparr>sent := sent db @ [s], clock := clock db + latency db\<rparr>)"
  by (simp add: round_trip_def answer_def busy_def)

lemma round_trip_healthy:
  "fault db = None \<Longrightarrow> pg_sleep s db = 0 \<Longrightarrow>
   round_trip None db s =
     (case run s (db\<lparr>sent := sent db @ [s]\<rparr>) of
        Inl e \<Rightarrow> (Inl e, db\<lparr>sent := sent db @ [s], clock := clock db + latency db\<rparr>)
      | Inr (res, db2) \<Rightarrow> (Inr res, db2\<lparr>clock := clock db + latency db\<rparr>))"
  by (simp add: round_trip_def answer_def busy_def Let_def split: sum.splits prod.splits)

lemma round_trip_failure_keeps_rows:
  "round_trip deadline db s = (Inl e, db') \<Longrightarrow>
   \<exists>c. db' = db\<lparr>sent := sent db @ [s], clock := c\<rparr>"
  by (auto simp: round_trip_def answer_def Let_def
      split: option.splits if_splits sum.splits prod.splits)

lemma QueryRow_UPDATE_no_match:
  assumes "fault db = None"
    and "filter (where_id_and_version i v) (movies db) = []"
  shows "QueryRow db (UPDATE t y rt g i v) =
    (Inl ErrNoRows, db\<lparr>sent := sent db @ [UPDATE t y rt g i v], clock := clock db + latency db\<rparr>)"
  using assms by (simp add: QueryRow_def round_trip_healthy first_row_def)

lemma QueryRow_UPDATE_row:
  assumes "QueryRow db (UPDATE t y rt g i v) = (Inr r', db')"
  shows "\<exists>r rs gs. filter (where_id_and_version i v) (movies db) = r # rs \<and> g = Some gs \<and>
           sint v \<noteq> 2 ^ 31 - 1 \<and> fault db = None \<and> r' = set_row t y rt gs r \<and>
           db' = db\<lparr>sent := sent db @ [UPDATE t y rt g i v],
                     movies := map (\<lambda>r. if where_id_and_version i v r
                                          then set_row t y rt gs r else r) (movies db),
                     clock := clock db + latency db\<rparr>"
proof (cases "fault db")
  case (Some msg)
  with assms show ?thesis
    by (simp add: QueryRow_def round_trip_fault first_row_def)
next
  case None
  show ?thesis
  proof (cases "filter (where_id_and_version i v) (movies db)")
    case Nil
    with None assms show ?thesis
      by (simp add: QueryRow_UPDATE_no_match)
  next
    case (Cons r rs)
    with None assms show ?thesis
      by (cases g) (auto simp: QueryRow_def round_trip_healthy first_row_def Let_def split: if_splits)
  qed
qed

lemma QueryRow_INSERT_row:
  assumes "fault db = None" and "last_id db < 2 ^ 63 - 1"
  shows "QueryRow db (INSERT t y rt (Some gs)) =
    (Inr \<lparr>row_id = word_of_nat (last_id db + 1), created_at = clock db, title = t,
           year = y, runtime = rt, genres = gs, version = 1\<rparr>,
     db\<lparr>sent := sent db @ [INSERT t y rt (Some gs)],
        movies := movies db @ [\<lparr>row_id = word_of_nat (last_id db + 1), created_at = clock db,
                                 title = t, year = y, runtime = rt, genres = gs, version = 1\<rparr>],
        last_id := last_id db + 1,
        clock := clock db + latency db\<rparr>)"
  using assms by (simp add: QueryRow_def round_trip_healthy first_row_def Let_def)

lemma Exec_DELETE:
  assumes "fault db = None"
  shows "Exec db (DELETE i) =
    (Inr (length (filter (where_id i) (movies db))),
     db\<lparr>sent := sent db @ [DELETE i],
        movies := filter (\<lambda>r. \<not> where_id i r) (movies db),
        clock := clock db + latency db\<rparr>)"
  using assms by (simp add: Exec_def round_trip_healthy Let_def)

lemma Exec_fault:
  "fault db = Some msg \<Longrightarrow>
   Exec db s = (Inl (DriverError msg), db\<lparr>sent := sent db @ [s], clock := clock db + latency db\<rparr>)"
  by (simp add: Exec_def round_trip_fault)

lemma Delete_fault:
  "1 \<le> sint i \<Longrightarrow> fault db = Some msg \<Longrightarrow>
   Delete db i =
     (Some (DriverError msg), db\<lparr>sent := sent db @ [DELETE i], clock := clock db + latency db\<rparr>)"
  by (simp add: Delete_def Exec_fault)

lemma QueryRowContext_SELECT:
  "QueryRowContext t db (SELECT i) =
     (if t \<le> busy (SELECT i) db
      then (Inl DeadlineExceeded, db\<lparr>sent := sent db @ [SELECT i], clock := clock db + t\<rparr>)
      else
        case fault db of
          Some msg \<Rightarrow>
            (Inl (DriverError msg),
             db\<lparr>sent := sent db @ [SELECT i], clock := clock db + busy (SELECT i) db\<rparr>)
        | None \<Rightarrow>
            (case filter (where_id i) (movies db) of
               [] \<Rightarrow>
                 (Inl ErrNoRows,
                  db\<lparr>sent := sent db @ [SELECT i], clock := clock db + busy (SELECT i) db\<rparr>)
             | r # rs \<Rightarrow>
                 (Inr r,
                  db\<lparr>sent := sent db @ [SELECT i], clock := clock db + busy (SELECT i) db\<rparr>)))"
  by (simp add: QueryRowContext_def round_trip_def answer_def first_row_def Let_def
      split: option.splits list.splits)

lemma busy_SELECT_row:
  "fault db = None \<Longrightarrow> filter (where_id i) (movies db) = r # rs
     \<Longrightarrow> 10000 \<le> busy (SELECT i) db"
  by (simp add: busy_def)

lemma Get_cases:
  assumes "1 \<le> sint i"
  shows "Get db i =
     (if 3000 \<le> busy (SELECT i) db
      then (Inl DeadlineExceeded, db\<lparr>sent := sent db @ [SELECT i], clock := clock db + 3000\<rparr>)
      else
        case fault db of
          Some msg \<Rightarrow>
            (Inl (DriverError msg),
             db\<lparr>sent := sent db @ [SELECT i], clock := clock db + busy (SELECT i) db\<rparr>)
        | None \<Rightarrow>
            (Inl ErrRecordNotFound,
             db\<lparr>sent := sent db @ [SELECT i], clock := clock db + busy (SELECT i) db\<rparr>))"
proof (cases "fault db")
  case (Some msg)
  with assms show ?thesis
    by (simp add: Get_def QueryRowContext_SELECT)
next
  case None
  show ?thesis
  proof (cases "filter (where_id i) (movies db)")
    case Nil
    with None assms show ?thesis
      by (simp add: Get_def QueryRowContext_SELECT)
  next
    case (Cons r rs)
    with None have "10000 \<le> busy (SELECT i) db"
      by (rule busy_SELECT_row)
    then have "3000 \<le> busy (SELECT i) db"
      by simp
    with assms show ?thesis
      by (simp add: Get_def QueryRowContext_SELECT)
  qed
qed

lemma Get_never_reads_a_record: "\<exists>e. fst (Get db i) = Inl e"
proof (cases "sint i < 1")
  case True
  then show ?thesis by (simp add: Get_def)
next
  case False
  then have "1 \<le> sint i" by simp
  then show ?thesis
    by (simp add: Get_cases split: option.splits)
qed

section \<open>The ids stay a primary key\<close>

lemma generated_ids_no_match:
  assumes "generated_ids db" and "sint i < 1"
  shows "filter (where_id_and_version i v) (movies db) = []"
proof -
  have "\<not> where_id_and_version i v r" if "r \<in> set (movies db)" for r
  proof -
    from assms(1) that have "1 \<le> sint (row_id r)"
      by (simp add: generated_ids_def list_all_iff)
    with assms(2) have "row_id r \<noteq> i"
      by auto
    then show ?thesis
      by (simp add: where_id_and_version_def)
  qed
  then show ?thesis
    by (simp add: filter_empty_conv)
qed

lemma generated_ids_sent: "generated_ids (db\<lparr>sent := x\<rparr>) = generated_ids db"
  by (simp add: generated_ids_def)

lemma generated_ids_clock: "generated_ids (db\<lparr>clock := x\<rparr>) = generated_ids db"
  by (simp add: generated_ids_def)

lemma generated_ids_new_row:
  assumes "generated_ids db" and "last_id db < 2 ^ 63 - 1"
    and "row_id r = word_of_nat (last_id db + 1)"
  shows "generated_ids (db\<lparr>movies := movies db @ [r], last_id := last_id db + 1\<rparr>)"
proof -
  from assms(2) have "last_id db + 1 < 2 ^ 63"
    by simp
  then have "sint (word_of_nat (last_id db + 1) :: int64) = int (last_id db + 1)"
    by (rule sint_generated_id)
  with assms(3) have i: "sint (row_id r) = int (last_id db) + 1"
    by simp
  have old: "1 \<le> sint (row_id x) \<and> sint (row_id x) \<le> int (last_id db)"
    if "x \<in> set (movies db)" for x
    using assms(1) that by (simp add: generated_ids_def list_all_iff)
  have "row_id r \<notin> row_id ` set (movies db)"
  proof
    assume "row_id r \<in> row_id ` set (movies db)"
    then obtain x where "x \<in> set (movies db)" "row_id x = row_id r"
      by auto
    with old [of x] i show False
      by simp
  qed
  moreover from assms(1) have "distinct (map row_id (movies db))"
    by (simp add: generated_ids_def)
  moreover from assms(2) have "last_id db + 1 \<le> 2 ^ 63 - 1"
    by simp
  moreover have "\<forall>x\<in>set (movies db). 1 \<le> sint (row_id x) \<and> sint (row_id x) \<le> int (last_id db) + 1"
    using old by force
  ultimately show ?thesis
    using i by (fastforce simp: generated_ids_def list_all_iff)
qed

lemma generated_ids_map:
  assumes "generated_ids db" and "\<And>r. row_id (f r) = row_id r"
  shows "generated_ids (db\<lparr>movies := map f (movies db)\<rparr>)"
proof -
  from assms(2) have "map row_id (map f (movies db)) = map row_id (movies db)"
    by simp
  with assms show ?thesis
    by (simp add: generated_ids_def list_all_iff del: map_map)
qed

lemma generated_ids_filter:
  assumes "generated_ids db"
  shows "generated_ids (db\<lparr>movies := filter P (movies db)\<rparr>)"
  using assms by (simp add: generated_ids_def list_all_iff distinct_map_filter)

lemma run_generated_ids:
  assumes "generated_ids db" and "run s db = Inr (res, db')"
  shows "generated_ids db'"
proof (cases s)
  case (INSERT t y rt g)
  with assms(2) obtain gs where g: "g = Some gs" and l: "last_id db < 2 ^ 63 - 1"
    by (cases g) (auto split: if_splits)
  let ?r = "\<lparr>row_id = word_of_nat (last_id db + 1), created_at = clock db, title = t,
             year = y, runtime = rt, genres = gs, version = 1\<rparr>"
  from assms(2) INSERT g l
  have "db' = db\<lparr>movies := movies db @ [?r], last_id := last_id db + 1\<rparr>"
    by (simp add: Let_def)
  moreover have "generated_ids (db\<lparr>movies := movies db @ [?r], last_id := last_id db + 1\<rparr>)"
    using assms(1) l by (rule generated_ids_new_row) simp
  ultimately show ?thesis
    by simp
next
  case (SELECT i)
  with assms show ?thesis
    by (simp add: Let_def)
next
  case (UPDATE t y rt g i v)
  show ?thesis
  proof (cases "filter (where_id_and_version i v) (movies db) = []")
    case True
    with assms UPDATE show ?thesis
      by (simp add: Let_def)
  next
    case False
    with assms(2) UPDATE obtain gs where g: "g = Some gs"
      by (cases g) (auto simp: Let_def)
    let ?f = "\<lambda>r. if where_id_and_version i v r then set_row t y rt gs r else r"
    from assms(2) UPDATE False g have "db' = db\<lparr>movies := map ?f (movies db)\<rparr>"
      by (simp add: Let_def split: if_splits)
    moreover have "generated_ids (db\<lparr>movies := map ?f (movies db)\<rparr>)"
      using assms(1) by (rule generated_ids_map) (simp add: set_row_def)
    ultimately show ?thesis
      by simp
  qed
next
  case (DELETE i)
  with assms(2) have "db' = db\<lparr>movies := filter (\<lambda>r. \<not> where_id i r) (movies db)\<rparr>"
    by (simp add: Let_def)
  with assms(1) show ?thesis
    by (simp add: generated_ids_filter)
qed

lemma round_trip_generated_ids:
  assumes "generated_ids db"
  shows "generated_ids (snd (round_trip deadline db s))"
proof -
  let ?db1 = "db\<lparr>sent := sent db @ [s]\<rparr>"
  from assms have g1: "generated_ids ?db1"
    by (simp add: generated_ids_sent generated_ids_clock)
  have a: "generated_ids (snd (answer ?db1 d s))" for d
  proof (cases "fault db")
    case (Some msg)
    with g1 show ?thesis
      by (simp add: answer_def generated_ids_sent generated_ids_clock)
  next
    case None
    show ?thesis
    proof (cases "run s ?db1")
      case (Inl e)
      with None g1 show ?thesis
        by (simp add: answer_def generated_ids_sent generated_ids_clock)
    next
      case (Inr p)
      obtain res db2 where p: "p = (res, db2)"
        by (cases p)
      from g1 Inr [unfolded p] have "generated_ids db2"
        by (rule run_generated_ids)
      with None Inr p show ?thesis
        by (simp add: answer_def generated_ids_sent generated_ids_clock)
    qed
  qed
  show ?thesis
  proof (cases deadline)
    case None
    with a show ?thesis
      by (simp add: round_trip_def Let_def)
  next
    case (Some t)
    with a g1 show ?thesis
      by (simp add: round_trip_def Let_def generated_ids_sent generated_ids_clock)
  qed
qed

lemma first_row_generated_ids:
  assumes "generated_ids db"
  shows "generated_ids (snd (first_row (round_trip deadline db s)))"
proof -
  obtain a db' where r: "round_trip deadline db s = (a, db')"
    by (cases "round_trip deadline db s")
  with round_trip_generated_ids [OF assms, of deadline s] have "generated_ids db'"
    by simp
  with r show ?thesis
    by (cases a) (simp_all add: first_row_def split: list.splits)
qed

lemma Insert_generated_ids:
  assumes "generated_ids db"
  shows "generated_ids (snd (snd (Insert db movie)))"
proof -
  let ?s = "INSERT (Title movie) (Year movie) (Runtime movie) (Genres movie)"
  obtain a db' where r: "first_row (round_trip None db ?s) = (a, db')"
    by (cases "first_row (round_trip None db ?s)")
  with first_row_generated_ids [OF assms, of None ?s] have "generated_ids db'"
    by simp
  with r show ?thesis
    by (cases a) (simp_all add: Insert_def QueryRow_def)
qed

lemma Get_generated_ids:
  assumes "generated_ids db"
  shows "generated_ids (snd (Get db i))"
proof -
  obtain a db' where r: "first_row (round_trip (Some 3000) db (SELECT i)) = (a, db')"
    by (cases "first_row (round_trip (Some 3000) db (SELECT i))")
  with first_row_generated_ids [OF assms, of "Some 3000" "SELECT i"] have "generated_ids db'"
    by simp
  with r assms show ?thesis
    by (cases a) (simp_all add: Get_def QueryRowContext_def)
qed

lemma Update_generated_ids:
  assumes "generated_ids db"
  shows "generated_ids (snd (snd (Update db movie)))"
proof -
  let ?s = "UPDATE (Title movie) (Year movie) (Runtime movie) (Genres movie)
              (ID movie) (Version movie)"
  obtain a db' where r: "first_row (round_trip None db ?s) = (a, db')"
    by (cases "first_row (round_trip None db ?s)")
  with first_row_generated_ids [OF assms, of None ?s] have "generated_ids db'"
    by simp
  with r show ?thesis
    by (cases a) (simp_all add: Update_def QueryRow_def)
qed

lemma Delete_generated_ids:
  assumes "generated_ids db"
  shows "generated_ids (snd (Delete db i))"
proof -
  obtain a db' where r: "round_trip None db (DELETE i) = (a, db')"
    by (cases "round_trip None db (DELETE i)")
  with round_trip_generated_ids [OF assms, of None "DELETE i"] have "generated_ids db'"
    by simp
  with r assms show ?thesis
    by (cases a) (simp_all add: Delete_def Exec_def)
qed

lemma generated_ids_empty: "movies db = [] \<Longrightarrow> last_id db = 0 \<Longrightarrow> generated_ids db"
  by (simp add: generated_ids_def)

section \<open>Properties of the movie model\<close>

lemma Update_no_match:
  assumes "fault db = None"
    and "filter (where_id_and_version (ID movie) (Version movie)) (movies db) = []"
  shows "Update db movie =
    (Some ErrEditConflict, movie,
     db\<lparr>sent := sent db @ [UPDATE (Title movie) (Year movie) (Runtime movie) (Genres movie)
                              (ID movie) (Version movie)],
        clock := clock db + latency db\<rparr>)"
  using assms by (simp add: Update_def QueryRow_UPDATE_no_match)

text \<open>
  C1. Against a backend that answers, when no row of the table has both the record's id
  and the record's version (the row is gone, or its version has moved on), \<^verbatim>\<open>Update\<close>
  returns \<^verbatim>\<open>ErrEditConflict\<close> in both cases alike, after the single UPDATE statement
  it sent (no retry, no second query), and neither the caller's record nor the rows nor
  the id sequence have changed.
\<close>

theorem Update_conflict:
  assumes "fault db = None"
    and "\<forall>r\<in>set (movies db). row_id r = ID movie \<longrightarrow> version r \<noteq> Version movie"
  shows "Update db movie =
    (Some ErrEditConflict, movie,
     db\<lparr>sent := sent db @ [UPDATE (Title movie) (Year movie) (Runtime movie) (Genres movie)
                              (ID movie) (Version movie)],
        clock := clock db + latency db\<rparr>)"
proof -
  from assms(2) have "filter (where_id_and_version (ID movie) (Version movie)) (movies db) = []"
    by (auto simp: filter_empty_conv where_id_and_version_def)
  with assms(1) show ?thesis
    by (rule Update_no_match)
qed

text \<open>
  The theorem at a stale version (row 1 is at version 1, version 2 is submitted) and at
  an id that no row has.
\<close>

theorem Update_conflict_witness:
  "Update moana_db (moana\<lparr>ID := 1, Version := 2\<rparr>) =
     (Some ErrEditConflict, moana\<lparr>ID := 1, Version := 2\<rparr>,
      moana_db\<lparr>sent := [UPDATE ''Moana'' 2016 107 (Some [''animation'', ''adventure'']) 1 2],
               clock := 2020\<rparr>)
   \<and> Update moana_db (moana\<lparr>ID := 2, Version := 1\<rparr>) =
     (Some ErrEditConflict, moana\<lparr>ID := 2, Version := 1\<rparr>,
      moana_db\<lparr>sent := [UPDATE ''Moana'' 2016 107 (Some [''animation'', ''adventure'']) 2 1],
               clock := 2020\<rparr>)"
  using Update_conflict [of moana_db "moana\<lparr>ID := 1, Version := 2\<rparr>"]
    Update_conflict [of moana_db "moana\<lparr>ID := 2, Version := 1\<rparr>"]
  by (simp add: moana_db_def moana_def moana_row_def)

lemma Update_row:
  assumes "Update db movie = (None, movie', db')"
  shows "\<exists>r rs gs.
     filter (where_id_and_version (ID movie) (Version movie)) (movies db) = r # rs \<and>
     Genres movie = Some gs \<and> sint (Version movie) \<noteq> 2 ^ 31 - 1 \<and> fault db = None \<and>
     movie' = movie\<lparr>Version := Version movie + 1\<rparr> \<and>
     db' = db\<lparr>sent := sent db @ [UPDATE (Title movie) (Year movie) (Runtime movie)
                                     (Genres movie) (ID movie) (Version movie)],
               movies := map (\<lambda>r. if where_id_and_version (ID movie) (Version movie) r
                                    then set_row (Title movie) (Year movie) (Runtime movie) gs r
                                    else r) (movies db),
               clock := clock db + latency db\<rparr>"
proof -
  let ?s = "UPDATE (Title movie) (Year movie) (Runtime movie) (Genres movie)
              (ID movie) (Version movie)"
  obtain a db1 where q: "QueryRow db ?s = (a, db1)"
    by (cases "QueryRow db ?s")
  with assms obtain r' where a: "a = Inr r'" and m: "movie' = movie\<lparr>Version := version r'\<rparr>"
    and d: "db' = db1"
    by (cases a) (auto simp: Update_def split: if_splits)
  from QueryRow_UPDATE_row [OF q [unfolded a]] obtain r rs gs where
    f: "filter (where_id_and_version (ID movie) (Version movie)) (movies db) = r # rs"
    and rest: "Genres movie = Some gs" "sint (Version movie) \<noteq> 2 ^ 31 - 1" "fault db = None"
      "r' = set_row (Title movie) (Year movie) (Runtime movie) gs r"
      "db1 = db\<lparr>sent := sent db @ [?s],
               movies := map (\<lambda>r. if where_id_and_version (ID movie) (Version movie) r
                                    then set_row (Title movie) (Year movie) (Runtime movie) gs r
                                    else r) (movies db),
               clock := clock db + latency db\<rparr>"
    by blast
  from f have "r \<in> set (filter (where_id_and_version (ID movie) (Version movie)) (movies db))"
    by simp
  then have "version r = Version movie"
    by (simp add: where_id_and_version_def)
  with rest(4) have "version r' = Version movie + 1"
    by (simp add: set_row_def)
  with f rest m d show ?thesis by simp
qed

text \<open>
  C2. When \<^verbatim>\<open>Update\<close> returns \<^verbatim>\<open>nil\<close> on a table whose ids are a primary key, the
  row of the record's id was stored at the submitted version; afterwards it is stored at
  that version plus 1 (as a number: there is no wrap-around), with the submitted title,
  year, runtime and genres and its old id and creation time; and the caller's record is
  the submitted one with its version field set to the new version.
\<close>

theorem Update_increments_version:
  assumes "Update db movie = (None, movie', db')"
    and "distinct (map row_id (movies db))"
  shows "\<exists>r r'. stored db (ID movie) = Some r \<and> version r = Version movie \<and>
           stored db' (ID movie) = Some r' \<and>
           version r' = version r + 1 \<and> sint (version r') = sint (version r) + 1 \<and>
           movie' = movie\<lparr>Version := version r'\<rparr> \<and>
           sint (Version movie') = sint (Version movie) + 1 \<and>
           row_id r' = row_id r \<and> created_at r' = created_at r \<and> title r' = Title movie \<and>
           year r' = Year movie \<and> runtime r' = Runtime movie \<and>
           Some (genres r') = Genres movie"
proof -
  from Update_row [OF assms(1)] obtain r rs gs where
    f: "filter (where_id_and_version (ID movie) (Version movie)) (movies db) = r # rs"
    and g: "Genres movie = Some gs" and v: "sint (Version movie) \<noteq> 2 ^ 31 - 1"
    and m: "movie' = movie\<lparr>Version := Version movie + 1\<rparr>"
    and d: "db' = db\<lparr>sent := sent db @ [UPDATE (Title movie) (Year movie) (Runtime movie)
                                     (Genres movie) (ID movie) (Version movie)],
               movies := map (\<lambda>r. if where_id_and_version (ID movie) (Version movie) r
                                    then set_row (Title movie) (Year movie) (Runtime movie) gs r
                                    else r) (movies db),
               clock := clock db + latency db\<rparr>"
    by blast
  let ?f = "\<lambda>r. if where_id_and_version (ID movie) (Version movie) r
                 then set_row (Title movie) (Year movie) (Runtime movie) gs r else r"
  from f have "r \<in> set (filter (where_id_and_version (ID movie) (Version movie)) (movies db))"
    by simp
  then have r: "r \<in> set (movies db)" "row_id r = ID movie" "version r = Version movie"
    by (simp_all add: where_id_and_version_def)
  from assms(2) r(1,2) have s: "stored db (ID movie) = Some r"
    by (simp add: stored_def find_primary_key)
  have "\<And>x. row_id (?f x) = row_id x"
    by (simp add: set_row_def)
  then have "find (where_id (ID movie)) (map ?f (movies db))
               = map_option ?f (find (where_id (ID movie)) (movies db))"
    by (rule find_map_same_id)
  with s d have s': "stored db' (ID movie) = Some (?f r)"
    by (simp add: stored_def)
  have fr: "?f r = set_row (Title movie) (Year movie) (Runtime movie) gs r"
    using r by (simp add: where_id_and_version_def)
  have sv: "sint (Version movie + 1) = sint (Version movie) + 1"
    using v by (rule sint_succ_version)
  show ?thesis
    using s s' r(3) g m sv unfolding fr
    by (simp add: set_row_def)
qed

text \<open>
  The theorem at a successful update of row 1 from version 1 to version 2.
\<close>

theorem Update_increments_version_witness:
  "Update moana_db (moana\<lparr>ID := 1, Version := 1\<rparr>) =
     (None, moana\<lparr>ID := 1, Version := 2\<rparr>,
      moana_db\<lparr>movies := [moana_row\<lparr>version := 2\<rparr>],
               sent := [UPDATE ''Moana'' 2016 107 (Some [''animation'', ''adventure'']) 1 1],
               clock := 2020\<rparr>)
   \<and> distinct (map row_id (movies moana_db))
   \<and> (\<exists>r r'. stored moana_db 1 = Some r \<and> version r = 1 \<and>
         stored (moana_db\<lparr>movies := [moana_row\<lparr>version := 2\<rparr>],
               sent := [UPDATE ''Moana'' 2016 107 (Some [''animation'', ''adventure'']) 1 1],
               clock := 2020\<rparr>) 1 = Some r' \<and>
         sint (version r') = sint (version r) + 1)"
proof -
  have u: "Update moana_db (moana\<lparr>ID := 1, Version := 1\<rparr>) =
     (None, moana\<lparr>ID := 1, Version := 2\<rparr>,
      moana_db\<lparr>movies := [moana_row\<lparr>version := 2\<rparr>],
               sent := [UPDATE ''Moana'' 2016 107 (Some [''animation'', ''adventure'']) 1 1],
               clock := 2020\<rparr>)"
    by (simp add: Update_def QueryRow_def round_trip_def answer_def busy_def first_row_def
        where_id_and_version_def set_row_def moana_db_def moana_def moana_row_def)
  have k: "distinct (map row_id (movies moana_db))"
    by (simp add: moana_db_def)
  from Update_increments_version [OF u k] u k show ?thesis
    by (simp add: moana_def) blast
qed

text \<open>
  C3. For an id below 1, \<^verbatim>\<open>Get\<close> returns \<^verbatim>\<open>ErrRecordNotFound\<close> and leaves the world as
  it was: no statement has been sent and no time has passed.
\<close>

theorem Get_invalid_id:
  "sint i < 1 \<Longrightarrow> Get db i = (Inl ErrRecordNotFound, db)"
  by (simp add: Get_def)

text \<open>
  The theorem at the ids 0 and -5.
\<close>

theorem Get_invalid_id_witness:
  "sint (0 :: int64) < 1 \<and> Get moana_db 0 = (Inl ErrRecordNotFound, moana_db)
   \<and> sint (- 5 :: int64) < 1 \<and> Get moana_db (- 5) = (Inl ErrRecordNotFound, moana_db)"
  using Get_invalid_id [of 0 moana_db] Get_invalid_id [of "- 5" moana_db]
  by simp

text \<open>
  C4. For an id below 1, \<^verbatim>\<open>Delete\<close> returns \<^verbatim>\<open>ErrRecordNotFound\<close> and sends nothing. For
  any other id, against a backend that answers, it sends the one DELETE statement, which
  removes every row of that id whatever its version, and it returns
  \<^verbatim>\<open>ErrRecordNotFound\<close> exactly when no row was affected; when one row was affected it
  returns \<^verbatim>\<open>nil\<close>, and no row of that id is stored any more. A failure of the backend
  is never reported as \<^verbatim>\<open>ErrRecordNotFound\<close>.
\<close>

theorem Delete_outcomes:
  "(sint i < 1 \<longrightarrow> Delete db i = (Some ErrRecordNotFound, db)) \<and>
   (1 \<le> sint i \<and> fault db = None \<longrightarrow>
      Delete db i =
        (if length (filter (where_id i) (movies db)) = 0 then Some ErrRecordNotFound else None,
         db\<lparr>sent := sent db @ [DELETE i],
            movies := filter (\<lambda>r. row_id r \<noteq> i) (movies db),
            clock := clock db + latency db\<rparr>)) \<and>
   (1 \<le> sint i \<and> fault db = None \<and> length (filter (where_id i) (movies db)) = 1 \<longrightarrow>
      fst (Delete db i) = None \<and> stored (snd (Delete db i)) i = None) \<and>
   (1 \<le> sint i \<longrightarrow>
      (fst (Delete db i) = Some ErrRecordNotFound) =
        (fault db = None \<and> length (filter (where_id i) (movies db)) = 0))"
proof -
  have "filter (where_id i) (filter (\<lambda>r. row_id r \<noteq> i) (movies db)) = []"
    by (simp add: where_id_def)
  then have "find (where_id i) (filter (\<lambda>r. row_id r \<noteq> i) (movies db)) = None"
    by (simp only: find_None_where_id)
  then have healthy: "?thesis" if "fault db = None"
    using that by (simp add: Delete_def Exec_DELETE stored_def where_id_def)
  show ?thesis
  proof (cases "fault db")
    case None
    then show ?thesis by (rule healthy)
  next
    case (Some msg)
    then show ?thesis
      by (simp add: Delete_fault) (simp add: Delete_def)
  qed
qed

text \<open>
  The theorem at an id below 1, at the id of the stored row, at an id no row has, and at
  the second deletion of the same id.
\<close>

theorem Delete_outcomes_witness:
  "Delete moana_db 0 = (Some ErrRecordNotFound, moana_db) \<and>
   Delete moana_db 1 = (None, moana_db\<lparr>sent := [DELETE 1], movies := [], clock := 2020\<rparr>) \<and>
   Delete moana_db 2 =
     (Some ErrRecordNotFound, moana_db\<lparr>sent := [DELETE 2], clock := 2020\<rparr>) \<and>
   Delete (moana_db\<lparr>sent := [DELETE 1], movies := [], clock := 2020\<rparr>) 1 =
     (Some ErrRecordNotFound,
      moana_db\<lparr>sent := [DELETE 1, DELETE 1], movies := [], clock := 2040\<rparr>)"
  using Delete_outcomes [of 0 moana_db] Delete_outcomes [of 1 moana_db]
    Delete_outcomes [of 2 moana_db]
    Delete_outcomes [of 1 "moana_db\<lparr>sent := [DELETE 1], movies := [], clock := 2020\<rparr>"]
  by (simp add: moana_db_def moana_row_def where_id_def)

text \<open>
  C5. For a record that \<^verbatim>\<open>ValidateMovie\<close> accepts, against a backend that answers and
  whose id sequence is not exhausted, \<^verbatim>\<open>Insert\<close> returns \<^verbatim>\<open>nil\<close>. One row has been added
  to the table: its id is the next value of the sequence (above 0), its creation time is
  the clock of the insert, its version is 1, and its title, year, runtime and genres are
  the record's. The caller's record is the submitted one with id, creation time and
  version set to those of the row.
\<close>

theorem Insert_valid_record:
  assumes "ValidateMovie now_year [] movie = []"
    and "fault db = None"
    and "last_id db < 2 ^ 63 - 1"
  shows "\<exists>r. Insert db movie =
           (None, movie\<lparr>ID := row_id r, CreatedAt := created_at r, Version := version r\<rparr>,
            db\<lparr>sent := sent db @ [INSERT (Title movie) (Year movie) (Runtime movie)
                                      (Genres movie)],
               movies := movies db @ [r],
               last_id := last_id db + 1,
               clock := clock db + latency db\<rparr>) \<and>
         version r = 1 \<and> sint (version r) = 1 \<and>
         0 < sint (row_id r) \<and> sint (row_id r) = int (last_id db) + 1 \<and>
         created_at r = clock db \<and>
         title r = Title movie \<and> year r = Year movie \<and> runtime r = Runtime movie \<and>
         Some (genres r) = Genres movie"
proof -
  from assms(1) have "Genres movie \<noteq> None"
    by (simp add: ValidateMovie_Nil_iff)
  then obtain gs where g: "Genres movie = Some gs"
    by blast
  from assms(3) have "last_id db + 1 < 2 ^ 63"
    by simp
  then have i: "sint (word_of_nat (last_id db + 1) :: int64) = int (last_id db + 1)"
    by (rule sint_generated_id)
  let ?r = "\<lparr>row_id = word_of_nat (last_id db + 1), created_at = clock db,
             title = Title movie, year = Year movie, runtime = Runtime movie, genres = gs,
             version = 1\<rparr>"
  have "Insert db movie =
           (None, movie\<lparr>ID := row_id ?r, CreatedAt := created_at ?r, Version := version ?r\<rparr>,
            db\<lparr>sent := sent db @ [INSERT (Title movie) (Year movie) (Runtime movie)
                                      (Genres movie)],
               movies := movies db @ [?r],
               last_id := last_id db + 1,
               clock := clock db + latency db\<rparr>)"
    using assms(2,3) by (simp add: Insert_def g QueryRow_INSERT_row)
  moreover have "version ?r = 1 \<and> sint (version ?r) = 1 \<and>
         0 < sint (row_id ?r) \<and> sint (row_id ?r) = int (last_id db) + 1 \<and>
         created_at ?r = clock db \<and>
         title ?r = Title movie \<and> year ?r = Year movie \<and> runtime ?r = Runtime movie \<and>
         Some (genres ?r) = Genres movie"
    using i g by simp
  ultimately show ?thesis
    by blast
qed

text \<open>
  The theorem at the insert of a valid record into the empty table.
\<close>

theorem Insert_valid_record_witness:
  "ValidateMovie 2026 [] moana = [] \<and> fault empty_db = None \<and> last_id empty_db < 2 ^ 63 - 1 \<and>
   Insert empty_db moana =
     (None, moana\<lparr>ID := 1, CreatedAt := 1000, Version := 1\<rparr>,
      empty_db\<lparr>sent := [INSERT ''Moana'' 2016 107 (Some [''animation'', ''adventure''])],
               movies := [moana_row], last_id := 1, clock := 1020\<rparr>) \<and>
   (\<exists>r. movies (snd (snd (Insert empty_db moana))) = [r] \<and> sint (version r) = 1 \<and>
        0 < sint (row_id r) \<and> created_at r = 1000)"
proof -
  have v: "ValidateMovie 2026 [] moana = []"
    by (simp add: ValidateMovie_Nil_iff moana_def len_def Unique_def)
  have f: "fault empty_db = None" and l: "last_id empty_db < 2 ^ 63 - 1"
    by (simp_all add: empty_db_def)
  have u: "Insert empty_db moana =
     (None, moana\<lparr>ID := 1, CreatedAt := 1000, Version := 1\<rparr>,
      empty_db\<lparr>sent := [INSERT ''Moana'' 2016 107 (Some [''animation'', ''adventure''])],
               movies := [moana_row], last_id := 1, clock := 1020\<rparr>)"
    by (simp add: Insert_def QueryRow_def round_trip_def answer_def busy_def first_row_def Let_def
        moana_def empty_db_def moana_row_def)
  from Insert_valid_record [OF v f l] obtain r where
    "movies (snd (snd (Insert empty_db moana))) = [r]" "sint (version r) = 1"
    "0 < sint (row_id r)" "created_at r = 1000"
    by (auto simp: empty_db_def)
  with v f l u show ?thesis
    by blast
qed

text \<open>
  C6. For an id of at least 1, \<^verbatim>\<open>Get\<close> returns within 3000 milliseconds of the clock.
  When the backend would be busy with the SELECT for 3000 milliseconds or more, the call
  is abandoned at 3000 with the error of the deadline, which is a storage error and not
  \<^verbatim>\<open>ErrRecordNotFound\<close>; the deadline's error is returned in that case only.
  \<^verbatim>\<open>ErrRecordNotFound\<close> is returned exactly when the backend answers in time, without
  failure, that no row has the id.
\<close>

theorem Get_deadline:
  assumes "1 \<le> sint i"
  shows "clock (snd (Get db i)) \<le> clock db + 3000 \<and>
    (3000 \<le> busy (SELECT i) db \<longrightarrow>
       Get db i = (Inl DeadlineExceeded,
                   db\<lparr>sent := sent db @ [SELECT i], clock := clock db + 3000\<rparr>)) \<and>
    StorageError DeadlineExceeded \<and>
    (fst (Get db i) = Inl DeadlineExceeded) = (3000 \<le> busy (SELECT i) db) \<and>
    (fst (Get db i) = Inl ErrRecordNotFound) =
       (busy (SELECT i) db < 3000 \<and> fault db = None \<and> filter (where_id i) (movies db) = []) \<and>
    (busy (SELECT i) db < 3000 \<and> fault db = None \<and> filter (where_id i) (movies db) = [] \<longrightarrow>
       Get db i = (Inl ErrRecordNotFound,
                   db\<lparr>sent := sent db @ [SELECT i], clock := clock db + latency db\<rparr>))"
proof -
  have rows: "3000 \<le> busy (SELECT i) db"
    if "fault db = None" "filter (where_id i) (movies db) \<noteq> []"
    using that busy_SELECT_row [of db i] by (cases "filter (where_id i) (movies db)") auto
  have none: "busy (SELECT i) db = latency db"
    if "fault db = None" "filter (where_id i) (movies db) = []"
    using that by (simp add: busy_def)
  show ?thesis
  proof (cases "fault db")
    case (Some msg)
    with assms show ?thesis
      by (simp add: Get_cases)
  next
    case None
    show ?thesis
    proof (cases "filter (where_id i) (movies db) = []")
      case True
      with None assms none show ?thesis
        by (simp add: Get_cases)
    next
      case False
      with None assms rows show ?thesis
        by (simp add: Get_cases)
    qed
  qed
qed

text \<open>
  The theorem at the id of a stored row (whose \<^verbatim>\<open>pg_sleep(10)\<close> outlasts the deadline),
  at an id no row has, and at the same id against a backend that takes 4 seconds.
\<close>

theorem Get_deadline_witness:
  "1 \<le> sint (1 :: int64) \<and> 1 \<le> sint (2 :: int64) \<and>
   3000 \<le> busy (SELECT 1) moana_db \<and>
   Get moana_db 1 = (Inl DeadlineExceeded, moana_db\<lparr>sent := [SELECT 1], clock := 5000\<rparr>) \<and>
   busy (SELECT 2) moana_db < 3000 \<and>
   Get moana_db 2 = (Inl ErrRecordNotFound, moana_db\<lparr>sent := [SELECT 2], clock := 2020\<rparr>) \<and>
   3000 \<le> busy (SELECT 2) (moana_db\<lparr>latency := 4000\<rparr>) \<and>
   Get (moana_db\<lparr>latency := 4000\<rparr>) 2 =
     (Inl DeadlineExceeded, moana_db\<lparr>latency := 4000, sent := [SELECT 2], clock := 5000\<rparr>)"
  using Get_deadline [of 1 moana_db] Get_deadline [of 2 moana_db]
    Get_deadline [of 2 "moana_db\<lparr>latency := 4000\<rparr>"]
  by (simp add: moana_db_def moana_row_def busy_def where_id_def)

text \<open>
  C7. The round trip on the code: a valid record is inserted into the empty table and
  receives id 1; \<^verbatim>\<open>Get\<close> of id 1 then fails with the error of the deadline instead of
  returning the record, because the SELECT evaluates \<^verbatim>\<open>pg_sleep(10)\<close> for the row it found
  and the context of \<^verbatim>\<open>Get\<close> expires after 3 seconds.
\<close>

theorem Insert_then_Get_times_out:
  "Insert empty_db moana =
     (None, moana\<lparr>ID := 1, CreatedAt := 1000, Version := 1\<rparr>,
      empty_db\<lparr>sent := [INSERT ''Moana'' 2016 107 (Some [''animation'', ''adventure''])],
               movies := [moana_row], last_id := 1, clock := 1020\<rparr>) \<and>
   Get (empty_db\<lparr>sent := [INSERT ''Moana'' 2016 107 (Some [''animation'', ''adventure''])],
                movies := [moana_row], last_id := 1, clock := 1020\<rparr>) 1 =
     (Inl DeadlineExceeded,
      empty_db\<lparr>sent := [INSERT ''Moana'' 2016 107 (Some [''animation'', ''adventure'']),
                        SELECT 1],
               movies := [moana_row], last_id := 1, clock := 4020\<rparr>)"
  by (simp add: Insert_def Get_def QueryRow_def QueryRowContext_def round_trip_def answer_def
      busy_def first_row_def Let_def where_id_def moana_def empty_db_def moana_row_def)

text \<open>
  C8. With the current year within the range of an \<^verbatim>\<open>int32\<close>, \<^verbatim>\<open>ValidateMovie\<close> on a
  fresh validator collects no violation exactly when all field invariants of the data
  model hold. Every field is judged on its own: the key \<^verbatim>\<open>title\<close> (\<^verbatim>\<open>year\<close>,
  \<^verbatim>\<open>runtime\<close>, \<^verbatim>\<open>genres\<close>) is among the collected keys exactly when the invariant of
  that field fails, whatever the other fields are; no other key is collected, and what a
  validator held before is kept. In particular empty genres and duplicate genres give a
  violation keyed \<^verbatim>\<open>genres\<close>, and a title of 501 bytes one keyed \<^verbatim>\<open>title\<close>.
\<close>

theorem ValidateMovie_collects:
  assumes "- (2 ^ 31) \<le> now_year" and "now_year < 2 ^ 31"
  shows "(ValidateMovie now_year [] movie = []) = record_invariants now_year movie \<and>
    (''title'' \<in> keys (ValidateMovie now_year [] movie)) = (\<not> title_invariant movie) \<and>
    (''year'' \<in> keys (ValidateMovie now_year [] movie)) = (\<not> year_invariant now_year movie) \<and>
    (''runtime'' \<in> keys (ValidateMovie now_year [] movie)) = (\<not> runtime_invariant movie) \<and>
    (''genres'' \<in> keys (ValidateMovie now_year [] movie)) = (\<not> genres_invariant movie) \<and>
    keys (ValidateMovie now_year [] movie) \<subseteq> {''title'', ''year'', ''runtime'', ''genres''} \<and>
    ValidateMovie now_year v movie = v @ ValidateMovie now_year [] movie \<and>
    (Genres movie = Some [] \<longrightarrow> ''genres'' \<in> keys (ValidateMovie now_year [] movie)) \<and>
    (\<forall>gs. Genres movie = Some gs \<and> \<not> distinct gs \<longrightarrow>
       ''genres'' \<in> keys (ValidateMovie now_year [] movie)) \<and>
    (length (Title movie) = 501 \<longrightarrow> ''title'' \<in> keys (ValidateMovie now_year [] movie))"
proof -
  have "Genres movie = Some [] \<longrightarrow> \<not> genres_invariant movie"
    by (simp add: genres_invariant_def)
  moreover have "\<forall>gs. Genres movie = Some gs \<and> \<not> distinct gs \<longrightarrow> \<not> genres_invariant movie"
    by (simp add: genres_invariant_def)
  moreover have "length (Title movie) = 501 \<longrightarrow> \<not> title_invariant movie"
    by (simp add: title_invariant_def)
  moreover have "keys (ValidateMovie now_year [] movie)
      \<subseteq> {''title'', ''year'', ''runtime'', ''genres''}"
    using keys_ValidateMovie by blast
  ultimately show ?thesis
    using ValidateMovie_invariants [OF assms] year_key [OF assms]
    by (simp only: title_key runtime_key genres_key ValidateMovie_append [of now_year v] simp_thms)
qed

text \<open>
  The theorem at a valid record, at a record that breaks all four invariants at once,
  at a record with empty genres, at one with a duplicate genre, and at one with a title
  of 501 bytes.
\<close>

theorem ValidateMovie_collects_witness:
  "- (2 ^ 31) \<le> (2026 :: int) \<and> (2026 :: int) < 2 ^ 31 \<and>
   ValidateMovie 2026 [] moana = [] \<and> record_invariants 2026 moana \<and>
   ValidateMovie 2026 []
     (moana\<lparr>Title := [], Year := 3000, Runtime := - 3, Genres := Some []\<rparr>) =
     [(''title'', ''must be provided''), (''year'', ''must not be in the future''),
      (''runtime'', ''must be a positive integer''),
      (''genres'', ''must contain at least 1 genre'')] \<and>
   \<not> record_invariants 2026
     (moana\<lparr>Title := [], Year := 3000, Runtime := - 3, Genres := Some []\<rparr>) \<and>
   ''genres'' \<in> keys (ValidateMovie 2026 [] (moana\<lparr>Genres := Some []\<rparr>)) \<and>
   ''genres'' \<in> keys (ValidateMovie 2026 [] (moana\<lparr>Genres := Some [''drama'', ''drama'']\<rparr>)) \<and>
   ''title'' \<in> keys (ValidateMovie 2026 [] (moana\<lparr>Title := replicate 501 CHR ''a''\<rparr>))"
proof -
  have y: "- (2 ^ 31) \<le> (2026 :: int)" "(2026 :: int) < 2 ^ 31"
    by simp_all
  have a: "ValidateMovie 2026 [] moana = []"
    by (simp add: ValidateMovie_Nil_iff moana_def len_def Unique_def)
  have b: "ValidateMovie 2026 []
     (moana\<lparr>Title := [], Year := 3000, Runtime := - 3, Genres := Some []\<rparr>) =
     [(''title'', ''must be provided''), (''year'', ''must not be in the future''),
      (''runtime'', ''must be a positive integer''),
      (''genres'', ''must contain at least 1 genre'')]"
    by (simp add: ValidateMovie_eq moana_def len_def Unique_def)
  have c: "length (Title (moana\<lparr>Title := replicate 501 CHR ''a''\<rparr>)) = 501"
    by simp
  have d: "Genres (moana\<lparr>Genres := Some [''drama'', ''drama'']\<rparr>) = Some [''drama'', ''drama'']
           \<and> \<not> distinct [''drama'', ''drama'']"
    by simp
  have e: "Genres (moana\<lparr>Genres := Some []\<rparr>) = Some []"
    by simp
  from ValidateMovie_collects [OF y, of moana] a
  have 1: "record_invariants 2026 moana"
    by simp
  from ValidateMovie_collects [OF y, of
      "moana\<lparr>Title := [], Year := 3000, Runtime := - 3, Genres := Some []\<rparr>"] b
  have 2: "\<not> record_invariants 2026
     (moana\<lparr>Title := [], Year := 3000, Runtime := - 3, Genres := Some []\<rparr>)"
    by simp
  from ValidateMovie_collects [OF y, of "moana\<lparr>Genres := Some []\<rparr>"] e
  have 3: "''genres'' \<in> keys (ValidateMovie 2026 [] (moana\<lparr>Genres := Some []\<rparr>))"
    by blast
  from ValidateMovie_collects [OF y, of "moana\<lparr>Genres := Some [''drama'', ''drama'']\<rparr>"] d
  have 4: "''genres'' \<in> keys (ValidateMovie 2026 []
             (moana\<lparr>Genres := Some [''drama'', ''drama'']\<rparr>))"
    by blast
  from ValidateMovie_collects [OF y, of "moana\<lparr>Title := replicate 501 CHR ''a''\<rparr>"] c
  have 5: "''title'' \<in> keys (ValidateMovie 2026 [] (moana\<lparr>Title := replicate 501 CHR ''a''\<rparr>))"
    by blast
  from y a b 1 2 3 4 5 show ?thesis
    by blast
qed

text \<open>
  C9. For a record whose id is below 1, against a backend that answers and a table whose
  ids were generated by the sequence (so all are at least 1), \<^verbatim>\<open>Update\<close> still sends its
  UPDATE statement and returns \<^verbatim>\<open>ErrEditConflict\<close>, whereas \<^verbatim>\<open>Get\<close> and \<^verbatim>\<open>Delete\<close> of
  the same id return \<^verbatim>\<open>ErrRecordNotFound\<close> without sending anything.
\<close>

theorem Update_skips_id_check:
  assumes "sint (ID movie) < 1" and "fault db = None" and "generated_ids db"
  shows "Update db movie =
      (Some ErrEditConflict, movie,
       db\<lparr>sent := sent db @ [UPDATE (Title movie) (Year movie) (Runtime movie) (Genres movie)
                                (ID movie) (Version movie)],
          clock := clock db + latency db\<rparr>) \<and>
    Get db (ID movie) = (Inl ErrRecordNotFound, db) \<and>
    Delete db (ID movie) = (Some ErrRecordNotFound, db)"
proof -
  from assms(3,1)
  have "filter (where_id_and_version (ID movie) (Version movie)) (movies db) = []"
    by (rule generated_ids_no_match)
  with assms(2) have "Update db movie =
      (Some ErrEditConflict, movie,
       db\<lparr>sent := sent db @ [UPDATE (Title movie) (Year movie) (Runtime movie) (Genres movie)
                                (ID movie) (Version movie)],
          clock := clock db + latency db\<rparr>)"
    by (rule Update_no_match)
  with assms(1) show ?thesis
    by (simp add: Get_def Delete_def)
qed

text \<open>
  The theorem at id 0.
\<close>

theorem Update_skips_id_check_witness:
  "sint (ID (moana\<lparr>ID := 0, Version := 1\<rparr>)) < 1 \<and> fault moana_db = None \<and>
   generated_ids moana_db \<and>
   Update moana_db (moana\<lparr>ID := 0, Version := 1\<rparr>) =
     (Some ErrEditConflict, moana\<lparr>ID := 0, Version := 1\<rparr>,
      moana_db\<lparr>sent := [UPDATE ''Moana'' 2016 107 (Some [''animation'', ''adventure'']) 0 1],
               clock := 2020\<rparr>) \<and>
   Get moana_db 0 = (Inl ErrRecordNotFound, moana_db) \<and>
   Delete moana_db 0 = (Some ErrRecordNotFound, moana_db)"
proof -
  have a: "sint (ID (moana\<lparr>ID := 0, Version := 1\<rparr>)) < 1"
    by (simp add: moana_def)
  have b: "fault moana_db = None"
    by (simp add: moana_db_def)
  have c: "generated_ids moana_db"
    by (simp add: generated_ids_def moana_db_def moana_row_def)
  from Update_skips_id_check [OF a b c] a b c show ?thesis
    by (simp add: moana_def moana_db_def)
qed

end
